theory Spec2Isabelle
  imports Main
begin

section \<open>Data model of the modal controller\<close>

text \<open>
  \<^verbatim>\<open>IndependentModal.svelte\<close> imports the types \<^verbatim>\<open>ModalCloseAction\<close> and
  \<^verbatim>\<open>ModalWidth\<close> from \<^verbatim>\<open>./modalTypes\<close>. The values the component uses are the string
  literals \<^verbatim>\<open>'button'\<close>, \<^verbatim>\<open>'esc'\<close>, \<^verbatim>\<open>'overlay'\<close> (lines 18, 21-23) and
  \<^verbatim>\<open>'regular'\<close>, \<^verbatim>\<open>'medium'\<close>, \<^verbatim>\<open>'large'\<close> (lines 15, 63-65).
\<close>

datatype ModalCloseAction = Button | Esc | Overlay

datatype ModalWidth = Regular | Medium | Large

text \<open>\<^verbatim>\<open>modalId: number | string | undefined\<close>\<close>

datatype modal_id = IdNumber int | IdString string

text \<open>
  The exported properties of the component (lines 12-19). The field \<open>size_m\<close> is the
  property \<^verbatim>\<open>size\<close>.
\<close>

record props =
  modalId :: "modal_id option"
  isOpen :: bool
  title :: "string option"
  size_m :: ModalWidth
  allowClose :: bool
  hasOverlay :: bool
  closeOn :: "ModalCloseAction list"
  canScrollBody :: bool

text \<open>The defaults of lines 12-19.\<close>

definition default_props :: props where
  "default_props =
     \<lparr>modalId = None, isOpen = False, title = None, size_m = Regular, allowClose = True,
      hasOverlay = True, closeOn = [Button], canScrollBody = True\<rparr>"

text \<open>The reactive declarations of lines 21-23.\<close>

definition closeOnButton :: "props \<Rightarrow> bool" where
  "closeOnButton p = (allowClose p \<and> Button \<in> set (closeOn p))"

definition closeOnEsc :: "props \<Rightarrow> bool" where
  "closeOnEsc p = (allowClose p \<and> Esc \<in> set (closeOn p))"

definition closeOnOverlay :: "props \<Rightarrow> bool" where
  "closeOnOverlay p = (allowClose p \<and> Overlay \<in> set (closeOn p))"

section \<open>Rendered trees\<close>

text \<open>
  The output of a template is a list of nodes. An element has a tag, its classes, its
  attributes (directives such as \<^verbatim>\<open>use:portal\<close> and the transitions are kept as
  attributes under the directive's name), its event listeners and its children.
  \<open>Foreign\<close> is content the embedding caller puts into a slot: the component renders
  it and knows nothing else about it.
\<close>

datatype attr_value = Str string | Num int

datatype handler = HandleOverlayClick | HandleCloseButtonClick

datatype node =
    Element string "string list" "(string \<times> attr_value) list" "(string \<times> handler) list" "node list"
  | Text string
  | Foreign string

fun listeners :: "node \<Rightarrow> (string \<times> handler) list" where
  "listeners (Element tg cs as ls ch) = ls @ concat (map listeners ch)"
| "listeners (Text t) = []"
| "listeners (Foreign c) = []"

definition listeners_of :: "node list \<Rightarrow> (string \<times> handler) list" where
  "listeners_of ns = concat (map listeners ns)"

text \<open>Whether some element of the tree carries the class \<open>c\<close>.\<close>

fun has_class :: "string \<Rightarrow> node \<Rightarrow> bool" where
  "has_class c (Element tg cs as ls ch) = (c \<in> set cs \<or> list_ex (has_class c) ch)"
| "has_class c (Text t) = False"
| "has_class c (Foreign x) = False"

definition any_class :: "string \<Rightarrow> node list \<Rightarrow> bool" where
  "any_class c ns = list_ex (has_class c) ns"

subsection \<open>Window.svelte\<close>

text \<open>
  The source of the window component is the second part of the file
  \<^verbatim>\<open>api/connections.ts\<close> (lines 35-78); the line numbers below are those of that file.
\<close>

text \<open>
  JavaScript truthiness of \<^verbatim>\<open>title: string | undefined\<close> (the empty string is falsy), and
  \<^verbatim>\<open>title ?? ''\<close>.
\<close>

definition truthy :: "string option \<Rightarrow> bool" where
  "truthy t = (case t of None \<Rightarrow> False | Some s \<Rightarrow> s \<noteq> [])"

definition or_empty :: "string option \<Rightarrow> string" where
  "or_empty t = (case t of None \<Rightarrow> [] | Some s \<Rightarrow> s)"

text \<open>
  The title bar of the window (lines 60-74). \<open>slot_title\<close> is
  \<open>None\<close> when the parent fills no \<^verbatim>\<open>title\<close> slot, so \<^verbatim>\<open>$$slots.title\<close> is
  \<open>slot_title \<noteq> None\<close>. \<^verbatim>\<open>Button\<close> and \<^verbatim>\<open>Icon\<close> are components of the library that
  are left unexpanded.
\<close>

definition title_bar :: "string option \<Rightarrow> bool \<Rightarrow> node list option \<Rightarrow> node" where
  "title_bar ttl hasCloseButton slot_title =
     Element ''div'' [''title-bar''] [] []
       (Element ''div'' [''title''] [] []
          ((case slot_title of None \<Rightarrow> [] | Some c \<Rightarrow> c) @ [Text (or_empty ttl)])
        # (if hasCloseButton
           then [Element ''Button'' [''close-button''] [(''appearance'', Str ''plain'')]
                   [(''click'', HandleCloseButtonClick)]
                   [Element ''Icon'' [] [(''...'', Str ''iconClose'')] [] []]]
           else []))"

text \<open>
  The window's template (lines 54-78): properties \<^verbatim>\<open>title\<close>, \<^verbatim>\<open>hasCloseButton\<close>,
  \<^verbatim>\<open>canScrollBody\<close>, \<^verbatim>\<open>hasBodyPadding\<close> and the three slots.
\<close>

definition Window ::
  "string option \<Rightarrow> bool \<Rightarrow> bool \<Rightarrow> bool \<Rightarrow> node list option \<Rightarrow> node list \<Rightarrow> node list \<Rightarrow> node" where
  "Window ttl hasCloseButton canScroll hasBodyPadding slot_title slot_default slot_footer =
     Element ''div''
       (''window'' # (if canScroll then [''can-scroll-body''] else [])
          @ (if hasBodyPadding then [''has-body-padding''] else []))
       [] []
       ((if slot_title \<noteq> None \<or> truthy ttl \<or> hasCloseButton
         then [title_bar ttl hasCloseButton slot_title] else [])
        @ [Element ''div'' [''body''] [] [] slot_default,
           Element ''div'' [''footer''] [] [] slot_footer])"

subsection \<open>IndependentModal.svelte\<close>

text \<open>What the embedding caller puts into the modal's three slots.\<close>

record slots =
  titleSlot :: "string list"
  defaultSlot :: "string list"
  footerSlot :: "string list"

definition id_value :: "modal_id \<Rightarrow> attr_value" where
  "id_value i = (case i of IdNumber n \<Rightarrow> Num n | IdString s \<Rightarrow> Str s)"

definition width_classes :: "ModalWidth \<Rightarrow> string list" where
  "width_classes w =
     (if w = Regular then [''width-regular''] else [])
     @ (if w = Medium then [''width-medium''] else [])
     @ (if w = Large then [''width-large''] else [])"

text \<open>The overlay of lines 54-59.\<close>

definition overlay :: node where
  "overlay =
     Element ''div'' [''overlay'']
       [(''in:fade.duration'', Num 150), (''out:fade.duration'', Num 150)]
       [(''click'', HandleOverlayClick)] []"

text \<open>
  The use of the window in lines 69-73. The \<^verbatim>\<open>title\<close> slot of the window is always
  filled, with a \<^verbatim>\<open>div\<close> that holds the caller's title slot and the title text; the
  window's own \<^verbatim>\<open>title\<close> property is not passed, and \<^verbatim>\<open>hasBodyPadding\<close> keeps its
  default \<open>True\<close>. \<open>hasCloseButton\<close> is the value of the variable
  \<^verbatim>\<open>closeOnButton\<close> the window is rendered with.
\<close>

definition modal_window :: "props \<Rightarrow> bool \<Rightarrow> slots \<Rightarrow> node" where
  "modal_window p hasCloseButton sl =
     Window None hasCloseButton (canScrollBody p) True
       (Some [Element ''div'' [] [] [] (map Foreign (titleSlot sl) @ [Text (or_empty (title p))])])
       (map Foreign (defaultSlot sl))
       (map Foreign (footerSlot sl))"

text \<open>
  The content of the block \<^verbatim>\<open>{#if isOpen}\<close> (lines 52-75), for the values it is
  rendered with: the properties, the value of the variable \<^verbatim>\<open>closeOnButton\<close>, and
  whether the node of the inner block \<^verbatim>\<open>{#if hasOverlay}\<close> is in the document (it
  stays there while its out-transition runs).
\<close>

definition modal_block :: "props \<Rightarrow> bool \<Rightarrow> bool \<Rightarrow> slots \<Rightarrow> node" where
  "modal_block p hasCloseButton withOverlay sl =
     Element ''div'' [''modal'']
       ((case modalId p of None \<Rightarrow> [] | Some i \<Rightarrow> [(''data-modal-id'', id_value i)])
        @ [(''use:portal'', Str [])])
       []
       ((if withOverlay then [overlay] else [])
        @ [Element ''div'' (''window-positioner'' # width_classes (size_m p))
             [(''in:fly.y'', Num 20), (''in:fly.duration'', Num 150),
              (''out:fly.y'', Num 20), (''out:fly.duration'', Num 150)]
             []
             [modal_window p hasCloseButton sl]])"

text \<open>
  The template of lines 51-76 as a function of the properties: what it yields when the
  reactive declarations of lines 21-23 hold the values of these properties and no
  transition runs.
\<close>

definition IndependentModal :: "props \<Rightarrow> slots \<Rightarrow> node list" where
  "IndependentModal p sl =
     (if isOpen p then [modal_block p (closeOnButton p) (hasOverlay p) sl] else [])"

text \<open>
  Modelled from the spec: the action \<^verbatim>\<open>portal\<close> of
  \<^verbatim>\<open>common/actions/portal\<close> is not among the sources. The spec: the subtree attaches
  to a fixed anchor point in the document rather than to its lexical parent. The nodes
  mounted at the anchor are the rendered nodes that carry the action.
\<close>

fun uses_portal :: "node \<Rightarrow> bool" where
  "uses_portal (Element tg cs as ls ch) = (''use:portal'' \<in> set (map fst as))"
| "uses_portal (Text t) = False"
| "uses_portal (Foreign c) = False"

definition mounted_at_anchor :: "node list \<Rightarrow> node list" where
  "mounted_at_anchor ns = filter uses_portal ns"

section \<open>The component instance\<close>

text \<open>
  The state of one mounted instance of the modal.
  \<^item> \<open>props\<close> and \<open>slots\<close>: the current values of the exported variables (the
    component's own copy of \<^verbatim>\<open>isOpen\<close> among them) and the slot content.
  \<^item> \<open>closeOnButton_v\<close>, \<open>closeOnEsc_v\<close>, \<open>closeOnOverlay_v\<close>: the variables
    \<^verbatim>\<open>closeOnButton\<close>, \<^verbatim>\<open>closeOnEsc\<close> and \<^verbatim>\<open>closeOnOverlay\<close>. The reactive
    declarations of lines 21-23 assign them at creation and at a flush, when
    \<^verbatim>\<open>allowClose\<close> or \<^verbatim>\<open>closeOn\<close> has been invalidated; in between they keep
    their values, and the handlers and the template read them.
  \<^item> \<open>dirtyIsOpen\<close>, \<open>dirtyPolicy\<close>, \<open>dirtyOther\<close>: since the last flush
    \<^verbatim>\<open>isOpen\<close>, one of \<^verbatim>\<open>allowClose\<close> and \<^verbatim>\<open>closeOn\<close>, or another property has
    been invalidated.
  \<^item> \<open>awaiting\<close>: the calls of \<^verbatim>\<open>dispatchOpenOrClose\<close> that are suspended at
    \<^verbatim>\<open>await tick()\<close>, oldest first, each with its argument \<^verbatim>\<open>_isOpen\<close>.
  \<^item> \<open>dispatched\<close>: the notifications given to \<^verbatim>\<open>dispatch\<close> so far, oldest first.
  \<^item> The document. \<open>attached\<close>: the nodes of the block \<^verbatim>\<open>{#if isOpen}\<close> are in the
    document; \<open>leaving\<close>: the block has been taken out and its out-transitions
    (lines 58 and 67) run, the nodes staying attached until they end; \<open>patched\<close> and
    \<open>patchedButton\<close>: the properties and the value of \<^verbatim>\<open>closeOnButton\<close> the block
    was last patched with; \<open>overlayAttached\<close> and \<open>overlayLeaving\<close>: the same
    for the node of the inner block \<^verbatim>\<open>{#if hasOverlay}\<close>.
\<close>

record modal =
  props :: props
  slots :: slots
  closeOnButton_v :: bool
  closeOnEsc_v :: bool
  closeOnOverlay_v :: bool
  dirtyIsOpen :: bool
  dirtyPolicy :: bool
  dirtyOther :: bool
  awaiting :: "bool list"
  dispatched :: "string list"
  attached :: bool
  leaving :: bool
  patched :: props
  patchedButton :: bool
  overlayAttached :: bool
  overlayLeaving :: bool

text \<open>The nodes of the modal that are in the document.\<close>

definition view :: "modal \<Rightarrow> node list" where
  "view s =
     (if attached s
      then [modal_block (patched s) (patchedButton s) (overlayAttached s) (slots s)]
      else [])"

text \<open>
  An assignment to \<^verbatim>\<open>isOpen\<close> inside the component, or the owner setting the property:
  the variable is invalidated (marked dirty, a flush scheduled) only when the value
  differs from the current one.
\<close>

definition invalidate_isOpen :: "bool \<Rightarrow> modal \<Rightarrow> modal" where
  "invalidate_isOpen b s =
     (if isOpen (props s) = b then s
      else s\<lparr>props := (props s)\<lparr>isOpen := b\<rparr>, dirtyIsOpen := True\<rparr>)"

text \<open>Lines 25-27.\<close>

definition close :: "modal \<Rightarrow> modal" where
  "close s = invalidate_isOpen False s"

text \<open>Lines 29-33; the argument is \<^verbatim>\<open>event.key\<close>.\<close>

definition handleKeydown :: "string \<Rightarrow> modal \<Rightarrow> modal" where
  "handleKeydown key s =
     (if key = ''Escape'' \<and> isOpen (props s) \<and> closeOnEsc_v s then close s else s)"

text \<open>Lines 35-39.\<close>

definition handleOverlayClick :: "modal \<Rightarrow> modal" where
  "handleOverlayClick s = (if closeOnOverlay_v s then close s else s)"

text \<open>
  Lines 41-44, in two halves. The call runs up to \<^verbatim>\<open>await tick()\<close> and is suspended
  with its argument; the continuation, run later as a microtask, dispatches.
\<close>

definition dispatchOpenOrClose :: "bool \<Rightarrow> modal \<Rightarrow> modal" where
  "dispatchOpenOrClose b s = s\<lparr>awaiting := awaiting s @ [b]\<rparr>"

definition notification :: "bool \<Rightarrow> string" where
  "notification b = (if b then ''open'' else ''close'')"

definition resume :: "modal \<Rightarrow> modal" where
  "resume s =
     (case awaiting s of
        [] \<Rightarrow> s
      | b # bs \<Rightarrow> s\<lparr>awaiting := bs, dispatched := dispatched s @ [notification b]\<rparr>)"

text \<open>The reactive declarations of lines 21-23, run.\<close>

definition recompute :: "modal \<Rightarrow> modal" where
  "recompute s =
     s\<lparr>closeOnButton_v := closeOnButton (props s),
       closeOnEsc_v := closeOnEsc (props s),
       closeOnOverlay_v := closeOnOverlay (props s)\<rparr>"

text \<open>
  The document is patched. With \<^verbatim>\<open>isOpen\<close> true the block is created, or kept and
  brought back in if it was leaving, and holds the current values; the overlay is
  there with \<^verbatim>\<open>hasOverlay\<close>, and an overlay that is there without it leaves. With
  \<^verbatim>\<open>isOpen\<close> false a block that is attached starts to leave and is not patched.
\<close>

definition patch :: "modal \<Rightarrow> modal" where
  "patch s =
     (if isOpen (props s)
      then s\<lparr>attached := True, leaving := False, patched := props s,
             patchedButton := closeOnButton_v s,
             overlayAttached := (hasOverlay (props s) \<or> attached s \<and> overlayAttached s),
             overlayLeaving := (\<not> hasOverlay (props s) \<and> attached s \<and> overlayAttached s)\<rparr>
      else if attached s then s\<lparr>leaving := True\<rparr> else s)"

text \<open>
  One update of the component inside a flush: the reactive declarations run when
  \<^verbatim>\<open>allowClose\<close> or \<^verbatim>\<open>closeOn\<close> is dirty, the reactive statement of line 46 runs when
  \<^verbatim>\<open>isOpen\<close> is dirty, then the document is patched.
\<close>

definition update :: "modal \<Rightarrow> modal" where
  "update s =
     (patch
        ((if dirtyIsOpen s then dispatchOpenOrClose (isOpen (props s)) else (\<lambda>s'. s'))
           (if dirtyPolicy s then recompute s else s)))
       \<lparr>dirtyIsOpen := False, dirtyPolicy := False, dirtyOther := False\<rparr>"

text \<open>
  Creation of the instance: the reactive declarations and the reactive statement run
  once with the initial values, then the template is rendered.
\<close>

definition mount :: "props \<Rightarrow> slots \<Rightarrow> modal" where
  "mount p sl =
     dispatchOpenOrClose (isOpen p)
       \<lparr>props = p, slots = sl,
        closeOnButton_v = closeOnButton p, closeOnEsc_v = closeOnEsc p,
        closeOnOverlay_v = closeOnOverlay p,
        dirtyIsOpen = False, dirtyPolicy = False, dirtyOther = False,
        awaiting = [], dispatched = [],
        attached = isOpen p, leaving = False, patched = p,
        patchedButton = closeOnButton p,
        overlayAttached = hasOverlay p, overlayLeaving = False\<rparr>"

text \<open>
  What can happen to a mounted instance.
  \<^item> \<open>SetIsOpen b\<close>, \<open>SetAllowClose b\<close>, \<open>SetCloseOn xs\<close>: the owner sets the
    property. A boolean is invalidated when its value changes, the array \<^verbatim>\<open>closeOn\<close>
    whenever it is set. Nothing else happens until the flush.
  \<^item> \<open>SetOther p\<close>: the owner sets \<^verbatim>\<open>modalId\<close>, \<^verbatim>\<open>title\<close>, \<^verbatim>\<open>size\<close>,
    \<^verbatim>\<open>hasOverlay\<close> and \<^verbatim>\<open>canScrollBody\<close> to their values in \<open>p\<close>.
  \<^item> \<open>Keydown key\<close>: a key goes down anywhere in the window (line 49).
  \<^item> \<open>Click h\<close>: a click reaches a node of the document that listens with \<open>h\<close>;
    the window's close button dispatches \<^verbatim>\<open>close\<close>, which line 69 wires to \<^verbatim>\<open>close\<close>.
    Nodes that are leaving still listen.
  \<^item> \<open>Flush\<close>: the scheduler flushes; the component is updated if it is dirty.
  \<^item> \<open>Resume\<close>: the oldest suspended call of \<^verbatim>\<open>dispatchOpenOrClose\<close> continues.
  \<^item> \<open>ModalOutroEnd\<close>, \<open>OverlayOutroEnd\<close>: the out-transitions of the block, or of
    the overlay alone, have run their 150 ms; the nodes that were leaving are detached.
\<close>

datatype event =
    SetIsOpen bool
  | SetAllowClose bool
  | SetCloseOn "ModalCloseAction list"
  | SetOther props
  | Keydown string
  | Click handler
  | Flush
  | Resume
  | ModalOutroEnd
  | OverlayOutroEnd

fun step :: "event \<Rightarrow> modal \<Rightarrow> modal" where
  "step (SetIsOpen b) s = invalidate_isOpen b s"
| "step (SetAllowClose b) s =
     (if allowClose (props s) = b then s
      else s\<lparr>props := (props s)\<lparr>allowClose := b\<rparr>, dirtyPolicy := True\<rparr>)"
| "step (SetCloseOn xs) s = s\<lparr>props := (props s)\<lparr>closeOn := xs\<rparr>, dirtyPolicy := True\<rparr>"
| "step (SetOther p) s =
     (if modalId p = modalId (props s) \<and> title p = title (props s)
         \<and> size_m p = size_m (props s) \<and> hasOverlay p = hasOverlay (props s)
         \<and> canScrollBody p = canScrollBody (props s)
      then s
      else s\<lparr>props := (props s)\<lparr>modalId := modalId p, title := title p, size_m := size_m p,
                               hasOverlay := hasOverlay p, canScrollBody := canScrollBody p\<rparr>,
             dirtyOther := True\<rparr>)"
| "step (Keydown key) s = handleKeydown key s"
| "step (Click h) s =
     (if (''click'', h) \<in> set (listeners_of (view s))
      then (case h of HandleOverlayClick \<Rightarrow> handleOverlayClick s
                    | HandleCloseButtonClick \<Rightarrow> close s)
      else s)"
| "step Flush s = (if dirtyIsOpen s \<or> dirtyPolicy s \<or> dirtyOther s then update s else s)"
| "step Resume s = resume s"
| "step ModalOutroEnd s =
     (if leaving s
      then s\<lparr>attached := False, leaving := False, overlayAttached := False,
             overlayLeaving := False\<rparr>
      else s)"
| "step OverlayOutroEnd s =
     (if overlayLeaving s then s\<lparr>overlayAttached := False, overlayLeaving := False\<rparr> else s)"

fun run :: "event list \<Rightarrow> modal \<Rightarrow> modal" where
  "run [] s = s"
| "run (e # es) s = run es (step e s)"

text \<open>
  The dismissal request of each trigger, as the source wires it: the close button of
  the window for \<^verbatim>\<open>'button'\<close>, the Escape key for \<^verbatim>\<open>'esc'\<close>, a click on the overlay
  for \<^verbatim>\<open>'overlay'\<close>.
\<close>

fun request :: "ModalCloseAction \<Rightarrow> event" where
  "request Button = Click HandleCloseButtonClick"
| "request Esc = Keydown ''Escape''"
| "request Overlay = Click HandleOverlayClick"

text \<open>
  The values the reactive statement of line 46 is run with during a sequence of events,
  in order.
\<close>

fun observed :: "event list \<Rightarrow> modal \<Rightarrow> bool list" where
  "observed [] s = []"
| "observed (e # es) s =
     (if e = Flush \<and> dirtyIsOpen s then [isOpen (props s)] else [])
     @ observed es (step e s)"

text \<open>The new value at each change of \<^verbatim>\<open>isOpen\<close> during a sequence of events, in order.\<close>

fun transitions :: "event list \<Rightarrow> modal \<Rightarrow> bool list" where
  "transitions [] s = []"
| "transitions (e # es) s =
     (if isOpen (props (step e s)) = isOpen (props s) then [] else [isOpen (props (step e s))])
     @ transitions es (step e s)"

text \<open>Nothing is dirty and no call is suspended.\<close>

definition settled :: "modal \<Rightarrow> bool" where
  "settled s =
     (\<not> dirtyIsOpen s \<and> \<not> dirtyPolicy s \<and> \<not> dirtyOther s \<and> awaiting s = [])"

text \<open>
  What every state of an instance satisfies (\<open>invariant_run\<close> below): nodes
  that are leaving are attached; with
  \<^verbatim>\<open>allowClose\<close> and \<^verbatim>\<open>closeOn\<close> flushed the three variables hold the values of the
  declarations; with \<^verbatim>\<open>isOpen\<close> flushed, an open modal has its block attached, not
  leaving, and rendered with the current \<^verbatim>\<open>closeOnButton\<close>, and a closed modal has its
  block detached or leaving.
\<close>

definition invariant :: "modal \<Rightarrow> bool" where
  "invariant s =
     ((attached s \<or> \<not> leaving s)
      \<and> (dirtyPolicy s \<or>
         closeOnButton_v s = closeOnButton (props s)
         \<and> closeOnEsc_v s = closeOnEsc (props s)
         \<and> closeOnOverlay_v s = closeOnOverlay (props s))
      \<and> (dirtyIsOpen s \<or>
           (if isOpen (props s)
            then attached s \<and> \<not> leaving s \<and> patchedButton s = closeOnButton_v s
            else leaving s = attached s)))"

section \<open>The resource client\<close>

text \<open>
  \<^verbatim>\<open>api/connections.ts\<close> sends its requests through \<^verbatim>\<open>getAPI\<close> and \<^verbatim>\<open>patchAPI\<close>
  of \<^verbatim>\<open>./utils/requestUtils\<close>. A request has a method, a path and, for a partial
  update, a body; the network answers a request with a failure or with a status and a
  body, and records what was sent. The answer may depend on what was sent before.
\<close>

datatype http_method = GET | PATCH

record 'b http_request =
  req_method :: http_method
  req_url :: string
  req_body :: "'b option"

datatype 'r response = NetworkFailure | Http nat 'r

record ('b, 'r) network =
  respond :: "'b http_request list \<Rightarrow> 'b http_request \<Rightarrow> 'r response"
  sent :: "'b http_request list"

definition send :: "'b http_request \<Rightarrow> ('b, 'r) network \<Rightarrow> 'r response \<times> ('b, 'r) network" where
  "send rq n = (respond n (sent n) rq, n\<lparr>sent := sent n @ [rq]\<rparr>)"

text \<open>
  Modelled from the spec: \<^verbatim>\<open>getAPI\<close> and \<^verbatim>\<open>patchAPI\<close> of \<^verbatim>\<open>utils/requestUtils\<close> are
  not among the sources. The spec: network failures and non-2xx responses are rejected
  operations; no retry, no caching. A promise settles to \<open>Inr\<close> of the body when it
  resolves and to \<open>Inl\<close> of the failed answer when it is rejected.
\<close>

definition settle :: "'r response \<Rightarrow> 'r response + 'r" where
  "settle r =
     (case r of
        NetworkFailure \<Rightarrow> Inl r
      | Http st b \<Rightarrow> if 200 \<le> st \<and> st < 300 then Inr b else Inl r)"

definition getAPI :: "string \<Rightarrow> ('b, 'r) network \<Rightarrow> ('r response + 'r) \<times> ('b, 'r) network" where
  "getAPI u n =
     (case send \<lparr>req_method = GET, req_url = u, req_body = None\<rparr> n of
        (r, n') \<Rightarrow> (settle r, n'))"

definition patchAPI ::
  "string \<Rightarrow> 'b \<Rightarrow> ('b, 'r) network \<Rightarrow> ('r response + 'r) \<times> ('b, 'r) network" where
  "patchAPI u d n =
     (case send \<lparr>req_method = PATCH, req_url = u, req_body = Some d\<rparr> n of
        (r, n') \<Rightarrow> (settle r, n'))"

text \<open>
  The text of a number inside a template literal. \<^verbatim>\<open>Connection['id']\<close> is declared in
  \<^verbatim>\<open>AppTypes\<close>, outside the sources; identifiers are taken to be integers.
\<close>

fun decimal :: "nat \<Rightarrow> string" where
  "decimal n =
     (if n < 10 then [''0123456789'' ! n]
      else decimal (n div 10) @ [''0123456789'' ! (n mod 10)])"

declare decimal.simps [simp del]

definition number_text :: "int \<Rightarrow> string" where
  "number_text i = (if i < 0 then CHR ''-'' # decimal (nat (- i)) else decimal (nat i))"

text \<open>Lines 15-19 and 21-29 of \<^verbatim>\<open>connections.ts\<close>.\<close>

definition connections_list :: "('b, 'r) network \<Rightarrow> ('r response + 'r) \<times> ('b, 'r) network" where
  "connections_list n = getAPI ''/api/db/v0/connections/?limit=500'' n"

definition connections_update ::
  "int \<Rightarrow> 'b \<Rightarrow> ('b, 'r) network \<Rightarrow> ('r response + 'r) \<times> ('b, 'r) network" where
  "connections_update connectionId properties n =
     patchAPI (''/api/db/v0/connections/'' @ number_text connectionId @ ''/'') properties n"

section \<open>Inputs of the examples\<close>

definition no_slots :: slots where
  "no_slots = \<lparr>titleSlot = [], defaultSlot = [], footerSlot = []\<rparr>"

definition open_props :: props where
  "open_props = default_props\<lparr>isOpen := True\<rparr>"

text \<open>A server that knows one connection and answers anything else with 404.\<close>

definition one_connection :: "(string, string) network" where
  "one_connection =
     \<lparr>respond = (\<lambda>h rq.
         if req_url rq = ''/api/db/v0/connections/?limit=500'' then Http 200 ''[c7]''
         else if req_url rq = ''/api/db/v0/connections/7/'' then Http 200 ''c7''
         else Http 404 ''not found''),
      sent = []\<rparr>"

text \<open>The children of a node.\<close>

fun children :: "node \<Rightarrow> node list" where
  "children (Element tg cs as ls ch) = ch"
| "children (Text t) = []"
| "children (Foreign c) = []"

section \<open>Shared lemmas\<close>

lemmas handler_defs = close_def invalidate_isOpen_def handleKeydown_def handleOverlayClick_def

lemmas policy_defs = closeOnButton_def closeOnEsc_def closeOnOverlay_def

lemmas schedule_defs =
  update_def patch_def recompute_def dispatchOpenOrClose_def resume_def mount_def settled_def
  notification_def

lemmas template_defs =
  IndependentModal_def modal_block_def modal_window_def Window_def title_bar_def overlay_def

text \<open>
  The listeners of the document: the overlay's while the block is attached with the
  overlay, the close button's while it is attached and was patched with
  \<^verbatim>\<open>closeOnButton\<close> true.
\<close>

lemma listeners_of_view:
  "set (listeners_of (view s)) =
     (if attached s
      then (if overlayAttached s then {(''click'', HandleOverlayClick)} else {})
           \<union> (if patchedButton s then {(''click'', HandleCloseButtonClick)} else {})
      else {})"
  by (simp add: view_def template_defs listeners_of_def)

lemma invariant_mount: "invariant (mount p sl)"
  by (simp add: invariant_def mount_def dispatchOpenOrClose_def)

lemma invariant_step: "invariant s \<Longrightarrow> invariant (step e s)"
  by (cases e)
     (auto simp: invariant_def handler_defs update_def patch_def recompute_def
        dispatchOpenOrClose_def resume_def policy_defs
        split: list.splits handler.splits if_splits)

lemma invariant_run: "invariant s \<Longrightarrow> invariant (run evs s)"
  by (induction evs arbitrary: s) (simp_all add: invariant_step)

lemma invariant_reachable: "invariant (run evs (mount p sl))"
  by (rule invariant_run [OF invariant_mount])

lemma step_request_closed:
  assumes "\<not> isOpen (props s)"
  shows "step (request t) s = s"
  using assms by (cases t) (auto simp: handler_defs split: handler.splits)

text \<open>
  In a state that has been flushed since \<^verbatim>\<open>isOpen\<close>, \<^verbatim>\<open>allowClose\<close> and \<^verbatim>\<open>closeOn\<close>
  last changed, the request of a trigger that \<^verbatim>\<open>allowClose\<close> or \<^verbatim>\<open>closeOn\<close> excludes
  changes nothing.
\<close>

lemma flushed_request_blocked:
  assumes "invariant s" and "\<not> dirtyIsOpen s" and "\<not> dirtyPolicy s"
    and "\<not> allowClose (props s) \<or> t \<notin> set (closeOn (props s))"
  shows "step (request t) s = s"
proof (cases "isOpen (props s)")
  case False
  then show ?thesis by (rule step_request_closed)
next
  case True
  with assms show ?thesis
    by (cases t) (auto simp: invariant_def listeners_of_view handler_defs policy_defs)
qed

lemma flushed_requests_blocked:
  assumes "invariant s" and "\<not> dirtyIsOpen s" and "\<not> dirtyPolicy s"
    and "\<not> allowClose (props s)"
  shows "run (map request ts) s = s"
  using assms by (induction ts) (simp_all add: flushed_request_blocked)

text \<open>
  Every event either leaves the suspended calls and the notifications alone, or appends
  one suspended call, or turns the oldest suspended call into a notification.
\<close>

lemma step_keeps_schedule:
  "dispatched (step e s) @ map notification (awaiting (step e s)) =
   dispatched s @ map notification (awaiting s) @ map notification (observed [e] s)"
  by (cases e)
     (auto simp: handler_defs update_def patch_def recompute_def dispatchOpenOrClose_def
           resume_def split: list.splits handler.splits)

lemma observed_Cons: "observed (e # es) s = observed [e] s @ observed es (step e s)"
  by simp

lemma run_keeps_schedule:
  "dispatched (run evs s) @ map notification (awaiting (run evs s)) =
   dispatched s @ map notification (awaiting s) @ map notification (observed evs s)"
proof (induction evs arbitrary: s)
  case Nil
  show ?case by simp
next
  case (Cons e es)
  have "dispatched (run (e # es) s) @ map notification (awaiting (run (e # es) s)) =
        dispatched (step e s) @ map notification (awaiting (step e s))
          @ map notification (observed es (step e s))"
    using Cons.IH [of "step e s"] by simp
  also have "\<dots> = dispatched s @ map notification (awaiting s)
          @ map notification (observed [e] s) @ map notification (observed es (step e s))"
    using step_keeps_schedule [of e s] by simp
  finally show ?case
    by (simp only: observed_Cons [of e es s] map_append)
qed

text \<open>Resuming \<open>n\<close> times dispatches the \<open>n\<close> oldest suspended calls and nothing else.\<close>

lemma step_resume:
  "awaiting (step Resume s) = drop 1 (awaiting s)
   \<and> dispatched (step Resume s) = dispatched s @ map notification (take 1 (awaiting s))
   \<and> view (step Resume s) = view s \<and> leaving (step Resume s) = leaving s
   \<and> props (step Resume s) = props s"
  by (cases "awaiting s") (simp_all add: resume_def view_def)

lemma run_resumes:
  "awaiting (run (replicate n Resume) s) = drop n (awaiting s)
   \<and> dispatched (run (replicate n Resume) s) = dispatched s @ map notification (take n (awaiting s))
   \<and> view (run (replicate n Resume) s) = view s
   \<and> leaving (run (replicate n Resume) s) = leaving s
   \<and> props (run (replicate n Resume) s) = props s"
proof (induction n arbitrary: s)
  case 0
  show ?case by simp
next
  case (Suc n)
  have "run (replicate (Suc n) Resume) s = run (replicate n Resume) (step Resume s)"
    by simp
  then show ?case
    using Suc.IH [of "step Resume s"] step_resume [of s]
    by (cases "awaiting s") (simp_all del: step.simps)
qed

lemma run_append: "run (xs @ ys) s = run ys (run xs s)"
  by (induction xs arbitrary: s) simp_all

text \<open>
  An event that changes \<^verbatim>\<open>isOpen\<close> assigns the new value and invalidates
  \<^verbatim>\<open>isOpen\<close>; it touches nothing else.
\<close>

lemma props_update: "props (update s) = props s"
  by (simp add: update_def patch_def recompute_def dispatchOpenOrClose_def)

lemma props_resume: "props (resume s) = props s"
  by (cases "awaiting s") (simp_all add: resume_def)

lemma invalidate_changes:
  "isOpen (props (invalidate_isOpen b s)) \<noteq> isOpen (props s) \<Longrightarrow>
   invalidate_isOpen b s = s\<lparr>props := (props s)\<lparr>isOpen := \<not> isOpen (props s)\<rparr>, dirtyIsOpen := True\<rparr>"
  by (cases "isOpen (props s) = b") (auto simp: invalidate_isOpen_def)

lemma transition_step:
  assumes "isOpen (props (step e s)) \<noteq> isOpen (props s)"
  shows "step e s = s\<lparr>props := (props s)\<lparr>isOpen := \<not> isOpen (props s)\<rparr>, dirtyIsOpen := True\<rparr>"
proof (cases e)
  case (SetIsOpen b)
  with assms show ?thesis by (simp add: invalidate_changes)
next
  case (SetAllowClose b)
  with assms show ?thesis by (simp split: if_splits)
next
  case (SetCloseOn xs)
  with assms show ?thesis by simp
next
  case (SetOther p)
  with assms show ?thesis by (simp split: if_splits)
next
  case (Keydown key)
  with assms show ?thesis
    by (cases "key = ''Escape'' \<and> isOpen (props s) \<and> closeOnEsc_v s")
       (simp_all add: handleKeydown_def close_def invalidate_changes)
next
  case (Click h)
  show ?thesis
  proof (cases "(''click'', h) \<in> set (listeners_of (view s))")
    case False
    with assms Click show ?thesis by simp
  next
    case True
    show ?thesis
    proof (cases h)
      case HandleOverlayClick
      with assms Click True show ?thesis
        by (cases "closeOnOverlay_v s")
           (simp_all add: handleOverlayClick_def close_def invalidate_changes)
    next
      case HandleCloseButtonClick
      with assms Click True show ?thesis
        by (simp add: close_def invalidate_changes)
    qed
  qed
next
  case Flush
  with assms show ?thesis by (simp add: props_update split: if_splits)
next
  case Resume
  with assms show ?thesis by (simp add: props_resume)
next
  case ModalOutroEnd
  with assms show ?thesis by (simp split: if_splits)
next
  case OverlayOutroEnd
  with assms show ?thesis by (simp split: if_splits)
qed

text \<open>The window alone: its title bar is a child exactly under the condition of line 59.\<close>

lemma Window_title_bar_iff:
  "(title_bar ttl hcb st \<in> set (children (Window ttl hcb cs hbp st sd sf))) =
   (st \<noteq> None \<or> truthy ttl \<or> hcb)"
  by (auto simp: Window_def title_bar_def)

lemma Window_no_title_bar:
  "\<not> any_class ''title-bar'' [Window (Some []) False cs hbp None [] []]"
  by (simp add: Window_def any_class_def truthy_def)

section \<open>Dismissal policy\<close>

text \<open>
  C1, as stated: with \<^verbatim>\<open>allowClose\<close> false no dismissal request closes the modal. It
  fails between the assignment and the flush: the owner sets \<^verbatim>\<open>allowClose\<close> to false
  on an open modal with all three triggers in \<^verbatim>\<open>closeOn\<close>; until the flush the
  variables of lines 21-23 keep their values and the close button stays in the
  document, and the request of each trigger closes the modal.
\<close>

theorem allowClose_false_unflushed_still_closes:
  "\<not> allowClose (props (run [Flush, Resume, SetAllowClose False]
        (mount (open_props\<lparr>closeOn := [Button, Esc, Overlay]\<rparr>) no_slots)))
   \<and> isOpen (props (run [Flush, Resume, SetAllowClose False]
        (mount (open_props\<lparr>closeOn := [Button, Esc, Overlay]\<rparr>) no_slots)))
   \<and> closeOnEsc_v (run [Flush, Resume, SetAllowClose False]
        (mount (open_props\<lparr>closeOn := [Button, Esc, Overlay]\<rparr>) no_slots))
   \<and> \<not> isOpen (props (run [Flush, Resume, SetAllowClose False, request Esc]
        (mount (open_props\<lparr>closeOn := [Button, Esc, Overlay]\<rparr>) no_slots)))
   \<and> \<not> isOpen (props (run [Flush, Resume, SetAllowClose False, request Button]
        (mount (open_props\<lparr>closeOn := [Button, Esc, Overlay]\<rparr>) no_slots)))
   \<and> \<not> isOpen (props (run [Flush, Resume, SetAllowClose False, request Overlay]
        (mount (open_props\<lparr>closeOn := [Button, Esc, Overlay]\<rparr>) no_slots)))"
  by (simp add: schedule_defs handler_defs policy_defs open_props_def default_props_def
      listeners_of_view)

text \<open>
  C1, amended: once the instance has been flushed since \<^verbatim>\<open>isOpen\<close>, \<^verbatim>\<open>allowClose\<close>
  and \<^verbatim>\<open>closeOn\<close> last changed, \<^verbatim>\<open>allowClose\<close> false means that no trigger closes the
  modal: the three variables are false, the Escape and overlay handlers do not call
  \<^verbatim>\<open>close\<close>, an open modal has no close button in the document, and the dismissal
  request of every trigger, and any sequence of them, leaves the instance as it is.
\<close>

theorem flushed_allowClose_false_blocks_every_trigger:
  assumes "s = run evs (mount p sl)"
    and "\<not> dirtyIsOpen s" and "\<not> dirtyPolicy s"
    and "\<not> allowClose (props s)"
  shows "\<not> closeOnButton_v s \<and> \<not> closeOnEsc_v s \<and> \<not> closeOnOverlay_v s
    \<and> handleKeydown key s = s \<and> handleOverlayClick s = s
    \<and> (if isOpen (props s)
        then (''click'', HandleCloseButtonClick) \<notin> set (listeners_of (view s))
        else close s = s)
    \<and> step (request t) s = s
    \<and> run (map request ts) s = s"
proof -
  have inv: "invariant s"
    using assms(1) invariant_reachable by simp
  have vars: "\<not> closeOnButton_v s \<and> \<not> closeOnEsc_v s \<and> \<not> closeOnOverlay_v s"
    using inv assms(3,4) by (simp add: invariant_def policy_defs)
  have handlers: "handleKeydown key s = s \<and> handleOverlayClick s = s"
    using vars by (simp add: handler_defs)
  have button: "if isOpen (props s)
        then (''click'', HandleCloseButtonClick) \<notin> set (listeners_of (view s))
        else close s = s"
    using inv vars assms(2) by (simp add: invariant_def listeners_of_view handler_defs)
  have one: "step (request t) s = s"
    using inv assms(2,3,4) by (simp add: flushed_request_blocked)
  have many: "run (map request ts) s = s"
    using inv assms(2,3,4) by (simp add: flushed_requests_blocked)
  from vars handlers button one many show ?thesis by blast
qed

theorem flushed_allowClose_false_blocks_every_trigger_witness:
  "\<not> dirtyIsOpen (run [Flush, Resume, SetAllowClose False, Flush]
        (mount (open_props\<lparr>closeOn := [Button, Esc, Overlay]\<rparr>) no_slots))
   \<and> \<not> dirtyPolicy (run [Flush, Resume, SetAllowClose False, Flush]
        (mount (open_props\<lparr>closeOn := [Button, Esc, Overlay]\<rparr>) no_slots))
   \<and> \<not> allowClose (props (run [Flush, Resume, SetAllowClose False, Flush]
        (mount (open_props\<lparr>closeOn := [Button, Esc, Overlay]\<rparr>) no_slots)))
   \<and> isOpen (props (run [request Button, request Esc, request Overlay]
        (run [Flush, Resume, SetAllowClose False, Flush]
          (mount (open_props\<lparr>closeOn := [Button, Esc, Overlay]\<rparr>) no_slots))))
   \<and> (''click'', HandleCloseButtonClick) \<notin> set (listeners_of (view
        (run [Flush, Resume, SetAllowClose False, Flush]
          (mount (open_props\<lparr>closeOn := [Button, Esc, Overlay]\<rparr>) no_slots))))"
  using flushed_allowClose_false_blocks_every_trigger
    [of "run [Flush, Resume, SetAllowClose False, Flush]
          (mount (open_props\<lparr>closeOn := [Button, Esc, Overlay]\<rparr>) no_slots)"
        "[Flush, Resume, SetAllowClose False, Flush]"
        "open_props\<lparr>closeOn := [Button, Esc, Overlay]\<rparr>" no_slots
        "''Escape''" Button "[Button, Esc, Overlay]"]
  by (simp add: schedule_defs policy_defs open_props_def default_props_def)

text \<open>
  C3, as stated: the request of a trigger that is not in \<^verbatim>\<open>closeOn\<close> is a no-op. It
  fails between the assignment and the flush: on an open modal with
  \<^verbatim>\<open>closeOn = ['button', 'overlay']\<close> the owner sets \<^verbatim>\<open>closeOn\<close> to \<^verbatim>\<open>['button']\<close>;
  until the flush \<^verbatim>\<open>closeOnOverlay\<close> is still true and a click on the overlay closes.
\<close>

theorem dropped_trigger_unflushed_still_closes:
  "Overlay \<notin> set (closeOn (props (run [Flush, Resume, SetCloseOn [Button]]
        (mount (open_props\<lparr>closeOn := [Button, Overlay]\<rparr>) no_slots))))
   \<and> allowClose (props (run [Flush, Resume, SetCloseOn [Button]]
        (mount (open_props\<lparr>closeOn := [Button, Overlay]\<rparr>) no_slots)))
   \<and> isOpen (props (run [Flush, Resume, SetCloseOn [Button]]
        (mount (open_props\<lparr>closeOn := [Button, Overlay]\<rparr>) no_slots)))
   \<and> \<not> isOpen (props (run [Flush, Resume, SetCloseOn [Button], request Overlay]
        (mount (open_props\<lparr>closeOn := [Button, Overlay]\<rparr>) no_slots)))
   \<and> dispatched (run [Flush, Resume, SetCloseOn [Button], request Overlay, Flush, Resume]
        (mount (open_props\<lparr>closeOn := [Button, Overlay]\<rparr>) no_slots))
       = [''open'', ''close'']"
  by (simp add: schedule_defs handler_defs policy_defs open_props_def default_props_def
      listeners_of_view)

text \<open>
  C3, amended: once the instance has been flushed since \<^verbatim>\<open>isOpen\<close>, \<^verbatim>\<open>allowClose\<close>
  and \<^verbatim>\<open>closeOn\<close> last changed, the dismissal request of a trigger that is not in
  \<^verbatim>\<open>closeOn\<close> changes nothing, whatever \<^verbatim>\<open>allowClose\<close> is: \<^verbatim>\<open>isOpen\<close> stays, nothing
  is scheduled, and whatever follows runs as if the request had not been made. The
  witness is the scenario of the overlay click with \<^verbatim>\<open>closeOn = ['button']\<close> and
  \<^verbatim>\<open>allowClose\<close> true.
\<close>

theorem flushed_trigger_outside_closeOn_is_noop:
  assumes "s = run evs (mount p sl)"
    and "\<not> dirtyIsOpen s" and "\<not> dirtyPolicy s"
    and "t \<notin> set (closeOn (props s))"
  shows "step (request t) s = s \<and> run (request t # es) s = run es s"
proof -
  have "invariant s"
    using assms(1) invariant_reachable by simp
  then have "step (request t) s = s"
    using assms(2,3,4) by (simp add: flushed_request_blocked)
  then show ?thesis by simp
qed

theorem flushed_trigger_outside_closeOn_is_noop_witness:
  "\<not> dirtyIsOpen (run [Flush, Resume] (mount open_props no_slots))
   \<and> \<not> dirtyPolicy (run [Flush, Resume] (mount open_props no_slots))
   \<and> Overlay \<notin> set (closeOn (props (run [Flush, Resume] (mount open_props no_slots))))
   \<and> allowClose (props (run [Flush, Resume] (mount open_props no_slots)))
   \<and> (''click'', HandleOverlayClick) \<in> set (listeners_of (view (run [Flush, Resume] (mount open_props no_slots))))
   \<and> isOpen (props (step (Click HandleOverlayClick) (run [Flush, Resume] (mount open_props no_slots))))
   \<and> dispatched (run [Click HandleOverlayClick, Flush, Resume] (run [Flush, Resume] (mount open_props no_slots)))
       = [''open'']"
  using flushed_trigger_outside_closeOn_is_noop
    [of "run [Flush, Resume] (mount open_props no_slots)" "[Flush, Resume]" open_props no_slots
        Overlay "[Flush, Resume]"]
  by (simp add: schedule_defs policy_defs open_props_def default_props_def listeners_of_view)

text \<open>
  C6, as stated: Escape closes exactly when the modal is open, \<^verbatim>\<open>allowClose\<close> is true
  and \<^verbatim>\<open>'esc'\<close> is in \<^verbatim>\<open>closeOn\<close>. It fails between the assignment and the flush, in
  both directions: after the owner adds \<^verbatim>\<open>'esc'\<close> to \<^verbatim>\<open>closeOn\<close> Escape does not close
  the open modal, and after the owner sets \<^verbatim>\<open>allowClose\<close> to false Escape still
  closes it.
\<close>

theorem escape_follows_the_variable_not_the_properties:
  "allowClose (props (run [Flush, Resume, SetCloseOn [Button, Esc]] (mount open_props no_slots)))
   \<and> Esc \<in> set (closeOn (props (run [Flush, Resume, SetCloseOn [Button, Esc]] (mount open_props no_slots))))
   \<and> isOpen (props (run [Flush, Resume, SetCloseOn [Button, Esc]] (mount open_props no_slots)))
   \<and> isOpen (props (run [Flush, Resume, SetCloseOn [Button, Esc], Keydown ''Escape'']
        (mount open_props no_slots)))
   \<and> \<not> allowClose (props (run [Flush, Resume, SetAllowClose False]
        (mount (open_props\<lparr>closeOn := [Button, Esc]\<rparr>) no_slots)))
   \<and> isOpen (props (run [Flush, Resume, SetAllowClose False]
        (mount (open_props\<lparr>closeOn := [Button, Esc]\<rparr>) no_slots)))
   \<and> \<not> isOpen (props (run [Flush, Resume, SetAllowClose False, Keydown ''Escape'']
        (mount (open_props\<lparr>closeOn := [Button, Esc]\<rparr>) no_slots)))"
  by (simp add: schedule_defs handler_defs policy_defs open_props_def default_props_def)

text \<open>
  C6, amended: the key-down listener is the window's, so a key-down is handled whatever
  the document holds. It sets \<^verbatim>\<open>isOpen\<close> to false (and invalidates it) exactly when the
  key is Escape, the modal is open and the variable \<^verbatim>\<open>closeOnEsc\<close> is true; otherwise
  the instance stays as it is. Once the instance has been flushed since
  \<^verbatim>\<open>allowClose\<close> and \<^verbatim>\<open>closeOn\<close> last changed, \<^verbatim>\<open>closeOnEsc\<close> is true exactly when
  \<^verbatim>\<open>allowClose\<close> is true and \<^verbatim>\<open>'esc'\<close> is in \<^verbatim>\<open>closeOn\<close>. The witness is the scenario
  of \<^verbatim>\<open>closeOn = ['button', 'esc']\<close>.
\<close>

theorem flushed_escape_closes_exactly_when_open_and_permitted:
  assumes "s = run evs (mount p sl)" and "\<not> dirtyPolicy s"
  shows "step (Keydown key) s =
     (if key = ''Escape'' \<and> isOpen (props s) \<and> closeOnEsc_v s
      then s\<lparr>props := (props s)\<lparr>isOpen := False\<rparr>, dirtyIsOpen := True\<rparr>
      else s)
   \<and> closeOnEsc_v s = (allowClose (props s) \<and> Esc \<in> set (closeOn (props s)))
   \<and> step (Keydown key) s =
     (if key = ''Escape'' \<and> isOpen (props s) \<and> allowClose (props s) \<and> Esc \<in> set (closeOn (props s))
      then s\<lparr>props := (props s)\<lparr>isOpen := False\<rparr>, dirtyIsOpen := True\<rparr>
      else s)
   \<and> step (Keydown key) (s\<lparr>attached := a\<rparr>) = (step (Keydown key) s)\<lparr>attached := a\<rparr>"
proof -
  have "invariant s"
    using assms(1) invariant_reachable by simp
  then have var: "closeOnEsc_v s = (allowClose (props s) \<and> Esc \<in> set (closeOn (props s)))"
    using assms(2) by (simp add: invariant_def policy_defs)
  have key: "step (Keydown key) s =
     (if key = ''Escape'' \<and> isOpen (props s) \<and> closeOnEsc_v s
      then s\<lparr>props := (props s)\<lparr>isOpen := False\<rparr>, dirtyIsOpen := True\<rparr>
      else s)"
    by (simp add: handler_defs)
  have doc: "step (Keydown key) (s\<lparr>attached := a\<rparr>) = (step (Keydown key) s)\<lparr>attached := a\<rparr>"
    by (simp add: handler_defs)
  from key var doc show ?thesis by simp
qed

theorem flushed_escape_closes_exactly_when_open_and_permitted_witness:
  "\<not> dirtyPolicy (run [Flush, Resume] (mount (open_props\<lparr>closeOn := [Button, Esc]\<rparr>) no_slots))
   \<and> \<not> isOpen (props (step (Keydown ''Escape'') (run [Flush, Resume] (mount (open_props\<lparr>closeOn := [Button, Esc]\<rparr>) no_slots))))
   \<and> dispatched (run [Flush, Resume, Keydown ''Escape'', Flush, Resume] (mount (open_props\<lparr>closeOn := [Button, Esc]\<rparr>) no_slots))
       = [''open'', ''close'']
   \<and> isOpen (props (step (Keydown ''Enter'') (run [Flush, Resume] (mount (open_props\<lparr>closeOn := [Button, Esc]\<rparr>) no_slots))))
   \<and> isOpen (props (step (Keydown ''Escape'') (run [Flush, Resume] (mount open_props no_slots))))"
  using flushed_escape_closes_exactly_when_open_and_permitted
    [of "run [Flush, Resume] (mount (open_props\<lparr>closeOn := [Button, Esc]\<rparr>) no_slots)"
        "[Flush, Resume]" "open_props\<lparr>closeOn := [Button, Esc]\<rparr>" no_slots "''Escape''" True]
  by (simp add: schedule_defs policy_defs open_props_def default_props_def handler_defs)



section \<open>Rendering\<close>

text \<open>
  C4, as stated: whenever \<^verbatim>\<open>isOpen\<close> is false the document holds no node of the
  modal. It fails: when an open modal is closed and flushed, the block is taken out
  through its out-transitions (lines 58 and 67), so the overlay, the window positioner
  and the window are still attached, at the anchor, while \<^verbatim>\<open>isOpen\<close> is false and
  \<^verbatim>\<open>close\<close> has been dispatched.
\<close>

theorem closed_modal_still_attached:
  "\<not> isOpen (props (run [Flush, Resume, SetIsOpen False, Flush, Resume] (mount open_props no_slots)))
   \<and> dispatched (run [Flush, Resume, SetIsOpen False, Flush, Resume] (mount open_props no_slots))
       = [''open'', ''close'']
   \<and> leaving (run [Flush, Resume, SetIsOpen False, Flush, Resume] (mount open_props no_slots))
   \<and> view (run [Flush, Resume, SetIsOpen False, Flush, Resume] (mount open_props no_slots))
       = IndependentModal open_props no_slots
   \<and> any_class ''overlay'' (view (run [Flush, Resume, SetIsOpen False, Flush, Resume] (mount open_props no_slots)))
   \<and> any_class ''window'' (view (run [Flush, Resume, SetIsOpen False, Flush, Resume] (mount open_props no_slots)))
   \<and> mounted_at_anchor (view (run [Flush, Resume, SetIsOpen False, Flush, Resume] (mount open_props no_slots)))
       \<noteq> []"
  by (simp add: schedule_defs invalidate_isOpen_def view_def template_defs any_class_def
      mounted_at_anchor_def policy_defs open_props_def default_props_def)

text \<open>
  C4, amended: a modal created with \<^verbatim>\<open>isOpen\<close> false renders no node. When
  \<^verbatim>\<open>isOpen\<close> is false, after the flush and the end of the out-transitions of the block
  the document holds no node of the modal at all: no overlay, no window positioner, no
  window, no slot content, no element of any class, and nothing is mounted at the
  anchor; the subtree is detached, not hidden.
\<close>

theorem closed_modal_renders_nothing_after_outro:
  assumes "s = run evs (mount p sl)" and "\<not> isOpen (props s)"
  shows "IndependentModal (props s) (slots s) = []
    \<and> view (run [Flush, ModalOutroEnd] s) = []
    \<and> mounted_at_anchor (view (run [Flush, ModalOutroEnd] s)) = []
    \<and> (\<forall>c. \<not> any_class c (view (run [Flush, ModalOutroEnd] s)))
    \<and> view (mount (q\<lparr>isOpen := False\<rparr>) sl') = []"
proof -
  have inv: "invariant s"
    using assms(1) invariant_reachable by simp
  have "\<not> attached (run [Flush, ModalOutroEnd] s)"
    using inv assms(2)
    by (auto simp: invariant_def update_def patch_def recompute_def dispatchOpenOrClose_def)
  then have gone: "view (run [Flush, ModalOutroEnd] s) = []"
    by (simp only: view_def if_False)
  have created: "view (mount (q\<lparr>isOpen := False\<rparr>) sl') = []"
    by (simp add: view_def mount_def dispatchOpenOrClose_def)
  show ?thesis
    using assms(2) created
    by (simp only: gone) (simp add: IndependentModal_def mounted_at_anchor_def any_class_def)
qed

theorem closed_modal_renders_nothing_after_outro_witness:
  "\<not> isOpen (props (run [Flush, Resume, SetIsOpen False] (mount open_props no_slots)))
   \<and> view (run [Flush, Resume, SetIsOpen False] (mount open_props no_slots)) \<noteq> []
   \<and> view (run [Flush, Resume, SetIsOpen False, Flush] (mount open_props no_slots)) \<noteq> []
   \<and> view (run [Flush, Resume, SetIsOpen False, Flush, ModalOutroEnd] (mount open_props no_slots)) = []
   \<and> view (mount default_props no_slots) = []"
  using closed_modal_renders_nothing_after_outro
    [of "run [Flush, Resume, SetIsOpen False] (mount open_props no_slots)"
        "[Flush, Resume, SetIsOpen False]" open_props no_slots default_props no_slots]
  by (simp add: schedule_defs invalidate_isOpen_def view_def open_props_def default_props_def)

text \<open>
  C5. The claim: with an empty title, no title slot content and no close button the
  title bar is absent, also when the window is the modal's chrome. The window alone does
  so (\<open>Window_title_bar_iff\<close>, \<open>Window_no_title_bar\<close>). The modal, however, always fills
  the window's \<^verbatim>\<open>title\<close> slot (line 70), so \<^verbatim>\<open>$$slots.title\<close> holds in the window and
  the title bar is rendered: here for an open modal with the empty string as title,
  nothing in its title slot and \<^verbatim>\<open>allowClose\<close> false.
\<close>

theorem modal_always_renders_title_bar:
  "any_class ''title-bar''
     (IndependentModal (open_props\<lparr>title := Some [], allowClose := False\<rparr>) no_slots)
   \<and> \<not> closeOnButton (open_props\<lparr>title := Some [], allowClose := False\<rparr>)
   \<and> \<not> truthy (title (open_props\<lparr>title := Some [], allowClose := False\<rparr>))
   \<and> titleSlot no_slots = []"
  by (simp add: template_defs any_class_def open_props_def default_props_def no_slots_def
      closeOnButton_def truthy_def)

section \<open>Lifecycle notifications\<close>

text \<open>
  C2, as stated: every transition of \<^verbatim>\<open>isOpen\<close> yields exactly one corresponding
  notification, and notifications come once per transition. It fails: a modal mounted
  closed notifies \<^verbatim>\<open>close\<close> without any transition, and when the owner then sets
  \<^verbatim>\<open>isOpen\<close> to true and back to false before the flush, the two transitions yield a
  single \<^verbatim>\<open>close\<close> and no \<^verbatim>\<open>open\<close>.
\<close>

theorem notifications_differ_from_transitions:
  "transitions [Flush, Resume] (mount default_props no_slots) = []
   \<and> dispatched (run [Flush, Resume] (mount default_props no_slots)) = [''close'']
   \<and> settled (run [Flush, Resume] (mount default_props no_slots))
   \<and> transitions [SetIsOpen True, SetIsOpen False, Flush, Resume]
        (run [Flush, Resume] (mount default_props no_slots)) = [True, False]
   \<and> dispatched (run [SetIsOpen True, SetIsOpen False, Flush, Resume]
        (run [Flush, Resume] (mount default_props no_slots))) = [''close'', ''close'']
   \<and> settled (run [SetIsOpen True, SetIsOpen False, Flush, Resume]
        (run [Flush, Resume] (mount default_props no_slots)))
   \<and> dispatched (run [Flush, Resume] (mount default_props no_slots))
       \<noteq> map notification (transitions [Flush, Resume] (mount default_props no_slots))
   \<and> dispatched (run [SetIsOpen True, SetIsOpen False, Flush, Resume]
        (run [Flush, Resume] (mount default_props no_slots)))
       \<noteq> dispatched (run [Flush, Resume] (mount default_props no_slots))
          @ map notification (transitions [SetIsOpen True, SetIsOpen False, Flush, Resume]
              (run [Flush, Resume] (mount default_props no_slots)))"
  by (simp add: schedule_defs default_props_def invalidate_isOpen_def)

text \<open>
  C2, amended: a transition of \<^verbatim>\<open>isOpen\<close>, by whatever event, that happens while
  \<^verbatim>\<open>isOpen\<close> is not dirty and is flushed before \<^verbatim>\<open>isOpen\<close> changes again yields exactly
  one notification, \<^verbatim>\<open>open\<close> when the new value is true and \<^verbatim>\<open>close\<close> when it is false.
  The flush suspends one call behind those already suspended and dispatches nothing;
  the notification is dispatched when that call resumes, after the notifications that
  were pending. The flush has patched the document by then: for \<^verbatim>\<open>open\<close> it holds the
  block with the new values; for \<^verbatim>\<open>close\<close> the block that was attached is still in the
  document, unchanged, and its out-transitions have started. A flush that finds
  \<^verbatim>\<open>isOpen\<close> not dirty suspends and dispatches nothing.
\<close>

theorem flushed_transition_notifies_once:
  assumes "\<not> dirtyIsOpen s" and "isOpen (props (step e s)) \<noteq> isOpen (props s)"
  shows "awaiting (run [e, Flush] s) = awaiting s @ [isOpen (props (step e s))]
    \<and> dispatched (run [e, Flush] s) = dispatched s
    \<and> dispatched (run ([e, Flush] @ replicate (Suc (length (awaiting s))) Resume) s)
        = dispatched s @ map notification (awaiting s)
            @ [if isOpen (props (step e s)) then ''open'' else ''close'']
    \<and> awaiting (run ([e, Flush] @ replicate (Suc (length (awaiting s))) Resume) s) = []
    \<and> view (run ([e, Flush] @ replicate n Resume) s)
        = (if isOpen (props (step e s))
           then [modal_block (props (step e s)) (closeOnButton_v (run [e, Flush] s))
                   (hasOverlay (props s) \<or> attached s \<and> overlayAttached s) (slots s)]
           else view s)
    \<and> leaving (run ([e, Flush] @ replicate n Resume) s)
        = (\<not> isOpen (props (step e s)) \<and> (attached s \<or> leaving s))
    \<and> awaiting (step Flush s) = awaiting s
    \<and> dispatched (step Flush s) = dispatched s"
proof -
  define b where "b = isOpen (props (step e s))"
  define f where "f = run [e, Flush] s"
  have st: "step e s = s\<lparr>props := (props s)\<lparr>isOpen := \<not> isOpen (props s)\<rparr>, dirtyIsOpen := True\<rparr>"
    using assms(2) by (rule transition_step)
  have f: "f = update (step e s)"
    by (simp add: f_def st)
  have aw: "awaiting f = awaiting s @ [b]"
    by (simp only: f b_def) (simp add: st update_def patch_def recompute_def dispatchOpenOrClose_def)
  have di: "dispatched f = dispatched s"
    by (simp only: f) (simp add: st update_def patch_def recompute_def dispatchOpenOrClose_def)
  have vw: "view f =
      (if b then [modal_block (props (step e s)) (closeOnButton_v f)
                     (hasOverlay (props s) \<or> attached s \<and> overlayAttached s) (slots s)]
       else view s)"
    by (simp only: f b_def)
       (simp add: st update_def patch_def recompute_def dispatchOpenOrClose_def view_def)
  have lv: "leaving f = (\<not> b \<and> (attached s \<or> leaving s))"
    by (simp only: f b_def)
       (auto simp: st update_def patch_def recompute_def dispatchOpenOrClose_def)
  have res: "run ([e, Flush] @ replicate k Resume) s = run (replicate k Resume) f" for k
    by (simp only: run_append f_def)
  have d3: "dispatched (run (replicate (Suc (length (awaiting s))) Resume) f)
        = dispatched s @ map notification (awaiting s) @ [if b then ''open'' else ''close'']"
    using run_resumes [of "Suc (length (awaiting s))" f]
    by (simp add: aw di notification_def)
  have a3: "awaiting (run (replicate (Suc (length (awaiting s))) Resume) f) = []"
    using run_resumes [of "Suc (length (awaiting s))" f]
    by (simp add: aw)
  have v3: "view (run (replicate n Resume) f) = view f"
    using run_resumes [of n f] by simp
  have l3: "leaving (run (replicate n Resume) f) = leaving f"
    using run_resumes [of n f] by simp
  have quiet: "awaiting (step Flush s) = awaiting s \<and> dispatched (step Flush s) = dispatched s"
    using assms(1) by (simp add: update_def patch_def recompute_def)
  have "awaiting f = awaiting s @ [b]
    \<and> dispatched f = dispatched s
    \<and> dispatched (run (replicate (Suc (length (awaiting s))) Resume) f)
        = dispatched s @ map notification (awaiting s) @ [if b then ''open'' else ''close'']
    \<and> awaiting (run (replicate (Suc (length (awaiting s))) Resume) f) = []
    \<and> view (run (replicate n Resume) f)
        = (if b then [modal_block (props (step e s)) (closeOnButton_v f)
                   (hasOverlay (props s) \<or> attached s \<and> overlayAttached s) (slots s)]
           else view s)
    \<and> leaving (run (replicate n Resume) f) = (\<not> b \<and> (attached s \<or> leaving s))
    \<and> awaiting (step Flush s) = awaiting s
    \<and> dispatched (step Flush s) = dispatched s"
    using aw di d3 a3 quiet by (simp only: v3 l3 vw lv)
  then show ?thesis
    by (simp only: res) (simp only: f_def b_def)
qed

theorem flushed_transition_notifies_once_witness:
  "\<not> dirtyIsOpen (run [Flush, Resume] (mount (open_props\<lparr>closeOn := [Esc]\<rparr>) no_slots))
   \<and> isOpen (props (step (Keydown ''Escape'') (run [Flush, Resume] (mount (open_props\<lparr>closeOn := [Esc]\<rparr>) no_slots))))
       \<noteq> isOpen (props (run [Flush, Resume] (mount (open_props\<lparr>closeOn := [Esc]\<rparr>) no_slots)))
   \<and> dispatched (run [Keydown ''Escape'', Flush, Resume]
        (run [Flush, Resume] (mount (open_props\<lparr>closeOn := [Esc]\<rparr>) no_slots)))
       = [''open'', ''close'']
   \<and> view (run [Keydown ''Escape'', Flush, Resume]
        (run [Flush, Resume] (mount (open_props\<lparr>closeOn := [Esc]\<rparr>) no_slots)))
       = IndependentModal (open_props\<lparr>closeOn := [Esc]\<rparr>) no_slots
   \<and> leaving (run [Keydown ''Escape'', Flush, Resume]
        (run [Flush, Resume] (mount (open_props\<lparr>closeOn := [Esc]\<rparr>) no_slots)))"
  using flushed_transition_notifies_once
    [of "run [Flush, Resume] (mount (open_props\<lparr>closeOn := [Esc]\<rparr>) no_slots)"
        "Keydown ''Escape''" 1]
  by (simp add: schedule_defs handler_defs policy_defs view_def IndependentModal_def
      open_props_def default_props_def)

text \<open>
  C8. Each run of the reactive statement suspends one call with the value of
  \<^verbatim>\<open>isOpen\<close> at that moment, behind the calls already suspended. Over any sequence of
  events the notifications dispatched, followed by those of the suspended calls, are
  those before the sequence followed by one per run of the statement, in order: none is
  dropped, merged or changed. So when \<^verbatim>\<open>isOpen\<close> changes again before a suspended call
  resumes, the notification of the earlier value is still dispatched: below, \<^verbatim>\<open>open\<close> is
  dispatched while \<^verbatim>\<open>isOpen\<close> is false again, and \<^verbatim>\<open>close\<close> follows.
\<close>

theorem one_deferred_notification_per_observed_change:
  "dispatched (run evs s) @ map notification (awaiting (run evs s)) =
     dispatched s @ map notification (awaiting s) @ map notification (observed evs s)
   \<and> awaiting (step Flush (s\<lparr>dirtyIsOpen := True\<rparr>)) = awaiting s @ [isOpen (props s)]
   \<and> observed [SetIsOpen True, Flush, SetIsOpen False, Flush] (run [Flush, Resume] (mount default_props no_slots))
       = [True, False]
   \<and> awaiting (run [SetIsOpen True, Flush, SetIsOpen False, Flush] (run [Flush, Resume] (mount default_props no_slots)))
       = [True, False]
   \<and> dispatched (run [SetIsOpen True, Flush, SetIsOpen False, Flush, Resume] (run [Flush, Resume] (mount default_props no_slots)))
       = [''close'', ''open'']
   \<and> \<not> isOpen (props (run [SetIsOpen True, Flush, SetIsOpen False, Flush, Resume] (run [Flush, Resume] (mount default_props no_slots))))
   \<and> dispatched (run [SetIsOpen True, Flush, SetIsOpen False, Flush, Resume, Resume] (run [Flush, Resume] (mount default_props no_slots)))
       = [''close'', ''open'', ''close'']"
proof -
  have general: "dispatched (run evs s) @ map notification (awaiting (run evs s)) =
     dispatched s @ map notification (awaiting s) @ map notification (observed evs s)"
    by (rule run_keeps_schedule)
  have one: "awaiting (step Flush (s\<lparr>dirtyIsOpen := True\<rparr>)) = awaiting s @ [isOpen (props s)]"
    by (simp add: update_def patch_def recompute_def dispatchOpenOrClose_def)
  have example:
    "observed [SetIsOpen True, Flush, SetIsOpen False, Flush] (run [Flush, Resume] (mount default_props no_slots))
       = [True, False]
   \<and> awaiting (run [SetIsOpen True, Flush, SetIsOpen False, Flush] (run [Flush, Resume] (mount default_props no_slots)))
       = [True, False]
   \<and> dispatched (run [SetIsOpen True, Flush, SetIsOpen False, Flush, Resume] (run [Flush, Resume] (mount default_props no_slots)))
       = [''close'', ''open'']
   \<and> \<not> isOpen (props (run [SetIsOpen True, Flush, SetIsOpen False, Flush, Resume] (run [Flush, Resume] (mount default_props no_slots))))
   \<and> dispatched (run [SetIsOpen True, Flush, SetIsOpen False, Flush, Resume, Resume] (run [Flush, Resume] (mount default_props no_slots)))
       = [''close'', ''open'', ''close'']"
    by (simp add: schedule_defs default_props_def invalidate_isOpen_def)
  from general one example show ?thesis by blast
qed

text \<open>
  C10. Creating the instance runs the reactive statement once with the initial value of
  \<^verbatim>\<open>isOpen\<close>: one call is suspended, nothing is dispatched yet, the document is the
  template of the initial properties, and \<^verbatim>\<open>isOpen\<close> has made no transition. When the
  call resumes after the first flush, one notification is dispatched: \<^verbatim>\<open>close\<close> for a
  modal mounted closed, \<^verbatim>\<open>open\<close> for one mounted open.
\<close>

theorem first_render_notifies_initial_value:
  "awaiting (mount p sl) = [isOpen p]
   \<and> dispatched (mount p sl) = []
   \<and> view (mount p sl) = IndependentModal p sl
   \<and> transitions [Flush, Resume] (mount p sl) = []
   \<and> dispatched (run [Flush] (mount p sl)) = []
   \<and> dispatched (run [Flush, Resume] (mount p sl)) = [if isOpen p then ''open'' else ''close'']
   \<and> dispatched (run [Flush, Resume] (mount (p\<lparr>isOpen := False\<rparr>) sl)) = [''close'']
   \<and> dispatched (run [Flush, Resume] (mount (p\<lparr>isOpen := True\<rparr>) sl)) = [''open'']
   \<and> settled (run [Flush, Resume] (mount p sl))"
  by (simp add: schedule_defs view_def IndependentModal_def)

section \<open>Requests of the resource client\<close>

text \<open>
  C9. \<^verbatim>\<open>list()\<close> sends exactly one \<^verbatim>\<open>GET\<close> of the fixed path with \<^verbatim>\<open>limit=500\<close> and
  settles as that one answer does; a second call sends the request again.
  \<^verbatim>\<open>update(id, properties)\<close> sends exactly one \<^verbatim>\<open>PATCH\<close> of the path of \<open>id\<close> with the
  properties as body and resolves to the body of the answer. A network failure or a
  status outside 200-299 is a rejection that carries the answer as it came.
\<close>

theorem connections_client_sends_one_request:
  "connections_list n =
     (settle (respond n (sent n)
        \<lparr>req_method = GET, req_url = ''/api/db/v0/connections/?limit=500'', req_body = None\<rparr>),
      n\<lparr>sent := sent n @
        [\<lparr>req_method = GET, req_url = ''/api/db/v0/connections/?limit=500'', req_body = None\<rparr>]\<rparr>)
   \<and> connections_update i d n =
     (settle (respond n (sent n)
        \<lparr>req_method = PATCH, req_url = ''/api/db/v0/connections/'' @ number_text i @ ''/'',
         req_body = Some d\<rparr>),
      n\<lparr>sent := sent n @
        [\<lparr>req_method = PATCH, req_url = ''/api/db/v0/connections/'' @ number_text i @ ''/'',
          req_body = Some d\<rparr>]\<rparr>)
   \<and> sent (snd (connections_list (snd (connections_list n)))) =
       sent n @
        [\<lparr>req_method = GET, req_url = ''/api/db/v0/connections/?limit=500'', req_body = None\<rparr>,
         \<lparr>req_method = GET, req_url = ''/api/db/v0/connections/?limit=500'', req_body = None\<rparr>]
   \<and> settle (NetworkFailure :: 'r response) = Inl NetworkFailure
   \<and> settle (Http st b) = (if 200 \<le> st \<and> st < 300 then Inr b else Inl (Http st b))"
  by (simp add: connections_list_def connections_update_def getAPI_def patchAPI_def send_def
      settle_def)

theorem connections_client_sends_one_request_witness:
  "fst (connections_list one_connection) = Inr ''[c7]''
   \<and> map req_url (sent (snd (connections_list one_connection))) = [''/api/db/v0/connections/?limit=500'']
   \<and> fst (connections_update 7 ''p'' one_connection) = Inr ''c7''
   \<and> sent (snd (connections_update 7 ''p'' one_connection))
       = [\<lparr>req_method = PATCH, req_url = ''/api/db/v0/connections/7/'', req_body = Some ''p''\<rparr>]
   \<and> fst (connections_update 8 ''p'' one_connection) = Inl (Http 404 ''not found'')"
  using connections_client_sends_one_request [of one_connection 7 "''p''" 200 "''c7''"]
    connections_client_sends_one_request [of one_connection 8 "''p''" 404 "''not found''"]
  by (simp add: one_connection_def number_text_def decimal.simps settle_def)

end
